theory Spec2Isabelle
  imports Complex_Main
begin

section \<open>Modern Task Manager: sampling and reconciliation\<close>

text \<open>
  A shallow embedding of the data path of \<^verbatim>\<open>src/modern_task_manager.py\<close>: the three
  capture functions (\<^verbatim>\<open>get_processes\<close>, \<^verbatim>\<open>get_services\<close>, \<^verbatim>\<open>get_performance_data\<close>),
  the sampler loop \<^verbatim>\<open>update_data\<close> and the reconciler \<^verbatim>\<open>update_ui\<close>.
  What the operating system, \<^verbatim>\<open>psutil\<close>, \<^verbatim>\<open>subprocess\<close> and GTK answer is an input of
  the model; what the Python code does with the answers is translated line by line.
\<close>

subsection \<open>Python strings\<close>

text \<open>
  \<^verbatim>\<open>str.split('\n')\<close>: the pieces between the separators, so a text with \<open>n\<close> newlines
  has \<open>n + 1\<close> pieces (the empty text has the one piece \<^verbatim>\<open>''\<close>).
  The piece being read is \<open>cur\<close>.
\<close>

fun split_sep :: "char \<Rightarrow> string \<Rightarrow> string \<Rightarrow> string list" where
  "split_sep sep cur [] = [cur]"
| "split_sep sep cur (c # cs) =
     (if c = sep then cur # split_sep sep [] cs else split_sep sep (cur @ [c]) cs)"

definition newline :: char where
  "newline = CHR 0x0A"

definition split_lines :: "string \<Rightarrow> string list" where
  "split_lines s = split_sep newline [] s"

text \<open>
  The whitespace of \<^verbatim>\<open>str.strip()\<close> and \<^verbatim>\<open>str.split()\<close> without argument, for the code
  points a \<^typ>\<open>char\<close> holds (0 to 255): tab, line feed, vertical tab, form feed,
  carriage return, the four separators 0x1C to 0x1F, space, NEL (0x85) and the
  no-break space (0xA0).
\<close>

definition isspace :: "char \<Rightarrow> bool" where
  "isspace c =
     (let n = (of_char c :: nat)
      in (9 \<le> n \<and> n \<le> 13) \<or> (28 \<le> n \<and> n \<le> 32) \<or> n = 133 \<or> n = 160)"

definition str_strip :: "string \<Rightarrow> string" where
  "str_strip s = rev (dropWhile isspace (rev (dropWhile isspace s)))"

text \<open>
  \<^verbatim>\<open>str.split()\<close>: the maximal runs of characters that are not whitespace, in order.
  The run being read is \<open>cur\<close>.
\<close>

fun split_ws :: "string \<Rightarrow> string \<Rightarrow> string list" where
  "split_ws cur [] = (if cur = [] then [] else [cur])"
| "split_ws cur (c # cs) =
     (if isspace c
      then (if cur = [] then split_ws [] cs else cur # split_ws [] cs)
      else split_ws (cur @ [c]) cs)"

definition str_split :: "string \<Rightarrow> string list" where
  "str_split s = split_ws [] s"

text \<open>The slice \<^verbatim>\<open>xs[a:b]\<close> for \<open>0 \<le> a \<le> b\<close>; it never raises.\<close>

definition slice :: "'a list \<Rightarrow> nat \<Rightarrow> nat \<Rightarrow> 'a list" where
  "slice xs a b = take (b - a) (drop a xs)"

subsection \<open>Service source: \<^verbatim>\<open>get_services\<close>\<close>

text \<open>
  A service row is the 4-tuple the code appends:
  (name, status, description, pid), all strings.
\<close>

type_synonym service = "string \<times> string \<times> string \<times> string"

text \<open>
  \<^verbatim>\<open>subprocess.run(..., capture_output=True, text=True)\<close> without \<^verbatim>\<open>check=True\<close>
  either raises (the binary is absent, the output does not decode) or returns a
  \<^verbatim>\<open>CompletedProcess\<close> with the exit status and the captured output, whatever the
  exit status is.
\<close>

datatype py_exception =
  FileNotFoundError | PermissionError | UnicodeDecodeError | OSError

record completed_process =
  returncode :: int
  stdout :: string

type_synonym run_outcome = "py_exception + completed_process"

text \<open>
  The body of the \<^verbatim>\<open>for line in lines[1:6]\<close> loop, with the list \<^verbatim>\<open>services\<close>
  it appends to.
\<close>

fun services_loop :: "string list \<Rightarrow> service list \<Rightarrow> service list" where
  "services_loop [] services = services"
| "services_loop (line # rest) services =
     (if str_strip line \<noteq> []
      then (let parts = str_split line
            in if length parts \<ge> 4
               then services_loop rest
                      (services @ [(parts ! 0, parts ! 3, ''System Service'', ''N/A'')])
               else services_loop rest services)
      else services_loop rest services)"

text \<open>The statements inside \<^verbatim>\<open>try:\<close>; \<open>Inl\<close> is an exception leaving the block.\<close>

definition get_services_try :: "run_outcome \<Rightarrow> py_exception + service list" where
  "get_services_try run =
     (case run of
        Inl e \<Rightarrow> Inl e
      | Inr result \<Rightarrow>
          (let lines = split_lines (stdout result)
           in Inr (services_loop (slice lines 1 6) [])))"

definition fallback_services :: "service list" where
  "fallback_services =
     [(''ssh.service'', ''active'', ''OpenSSH Server'', ''1234''),
      (''cron.service'', ''active'', ''Cron Daemon'', ''5678''),
      (''nginx.service'', ''active'', ''Web Server'', ''9012'')]"

text \<open>
  \<^verbatim>\<open>get_services\<close>: the bare \<^verbatim>\<open>except:\<close> catches every exception of the block and
  replaces the list by the example data.
\<close>

definition get_services :: "run_outcome \<Rightarrow> py_exception + service list" where
  "get_services run =
     (case get_services_try run of
        Inl e \<Rightarrow> Inr fallback_services
      | Inr services \<Rightarrow> Inr services)"

subsection \<open>Process source: \<^verbatim>\<open>get_processes\<close>\<close>

text \<open>
  Floating-point values (percentages, scroll offsets) are carried without being
  computed on; their type is the parameter \<open>'f\<close>.

  \<^verbatim>\<open>proc.info\<close>, the dictionary \<^verbatim>\<open>psutil.process_iter\<close> fills for one process.
\<close>

record 'f proc_info =
  info_name :: string
  info_pid :: int
  info_status :: string
  info_username :: string
  info_cpu_percent :: 'f
  info_memory_percent :: 'f

text \<open>
  What reading one enumerated process gives inside the \<^verbatim>\<open>try:\<close>: its values, or
  one of the two exceptions the \<^verbatim>\<open>except\<close> clause names.
\<close>

datatype 'f proc = Info "'f proc_info" | NoSuchProcess | AccessDenied

text \<open>A process row is the 6-tuple (name, pid, status, user, cpu, memory).\<close>

type_synonym 'f process = "string \<times> int \<times> string \<times> string \<times> 'f \<times> 'f"

text \<open>
  The \<^verbatim>\<open>for proc in psutil.process_iter(...)\<close> loop over the processes the
  enumeration yields, with the list \<^verbatim>\<open>processes\<close> it appends to.
\<close>

fun processes_loop :: "'f proc list \<Rightarrow> 'f process list \<Rightarrow> 'f process list" where
  "processes_loop [] processes = processes"
| "processes_loop (Info info # rest) processes =
     processes_loop rest
       (processes @ [(info_name info, info_pid info, info_status info,
                      info_username info, info_cpu_percent info,
                      info_memory_percent info)])"
| "processes_loop (NoSuchProcess # rest) processes = processes_loop rest processes"
| "processes_loop (AccessDenied # rest) processes = processes_loop rest processes"

definition get_processes :: "'f proc list \<Rightarrow> 'f process list" where
  "get_processes process_iter = processes_loop process_iter []"

definition process_pid :: "'f process \<Rightarrow> int" where
  "process_pid row = fst (snd row)"

definition service_name :: "service \<Rightarrow> string" where
  "service_name row = fst row"

definition service_status :: "service \<Rightarrow> string" where
  "service_status row = fst (snd row)"

definition service_description :: "service \<Rightarrow> string" where
  "service_description row = fst (snd (snd row))"

definition service_pid :: "service \<Rightarrow> string" where
  "service_pid row = snd (snd (snd row))"

subsection \<open>Performance source: \<^verbatim>\<open>get_performance_data\<close>\<close>

text \<open>The results of \<^verbatim>\<open>psutil.virtual_memory()\<close> and \<^verbatim>\<open>psutil.disk_usage('/')\<close>.\<close>

record 'f svmem =
  vm_total :: int
  vm_used :: int
  vm_percent :: 'f

record 'f sdiskusage =
  du_total :: int
  du_used :: int
  du_percent :: 'f

text \<open>The dictionary \<^verbatim>\<open>get_performance_data\<close> returns, with its keys as fields.\<close>

record 'f performance =
  cpu_percent :: 'f
  memory_percent :: 'f
  memory_used :: int
  memory_total :: int
  disk_percent :: 'f
  disk_used :: int
  disk_total :: int
  boot_time :: string

text \<open>
  The arguments are what \<^verbatim>\<open>psutil.cpu_percent(interval=0.1)\<close>,
  \<^verbatim>\<open>psutil.virtual_memory()\<close> and \<^verbatim>\<open>psutil.disk_usage('/')\<close> return, and the boot
  time already formatted by \<^verbatim>\<open>strftime\<close>. Python's \<^verbatim>\<open>//\<close> on integers is floor
  division, as \<open>div\<close> on \<^typ>\<open>int\<close> is.
\<close>

definition get_performance_data ::
  "'f \<Rightarrow> 'f svmem \<Rightarrow> 'f sdiskusage \<Rightarrow> string \<Rightarrow> 'f performance" where
  "get_performance_data cpu memory disk boot =
     \<lparr> cpu_percent = cpu,
       memory_percent = vm_percent memory,
       memory_used = vm_used memory div (1024 ^ 3),
       memory_total = vm_total memory div (1024 ^ 3),
       disk_percent = du_percent disk,
       disk_used = du_used disk div (1024 ^ 3),
       disk_total = du_total disk div (1024 ^ 3),
       boot_time = boot \<rparr>"

subsection \<open>The window: list stores, selections, scroll positions, labels\<close>

text \<open>\<^verbatim>\<open>str(n)\<close> for an integer: decimal digits, with a minus sign when negative.\<close>

fun str_nat :: "nat \<Rightarrow> string" where
  "str_nat n =
     (if n < 10 then [char_of (48 + n)]
      else str_nat (n div 10) @ [char_of (48 + n mod 10)])"

declare str_nat.simps [simp del]

definition str_int :: "int \<Rightarrow> string" where
  "str_int i = (if i < 0 then CHR ''-'' # str_nat (nat (- i)) else str_nat (nat i))"

text \<open>
  The fields of \<^verbatim>\<open>ModernTaskManager\<close> that \<^verbatim>\<open>update_ui\<close> reads or writes.
  A \<^verbatim>\<open>Gtk.ListStore\<close> is the list of its rows. A \<^verbatim>\<open>Gtk.TreeSelection\<close> (single
  selection, the default mode) is the index of the selected row, if any. Of the
  vertical \<^verbatim>\<open>Gtk.Adjustment\<close> of a scrolled window the record holds the value, the
  scroll offset; its range is given further down. The status bar is its stack of
  messages, the shown one first.
\<close>

record 'f window =
  process_list :: "'f process list"
  process_selection :: "nat option"
  services_list :: "service list"
  services_selection :: "nat option"
  processes_scroll_pos :: 'f
  services_scroll_pos :: 'f
  vadj_process :: 'f
  vadj_services :: 'f
  status_bar :: "string list"
  cpu_label :: string
  cpu_progress_fraction :: 'f
  cpu_progress_text :: string
  mem_label :: string
  mem_progress_fraction :: 'f
  mem_progress_text :: string
  disk_label :: string
  disk_progress_fraction :: 'f
  disk_progress_text :: string
  info_label :: string

text \<open>
  The range of a \<^verbatim>\<open>Gtk.Adjustment\<close>. GTK sets it when it lays the list out; the
  program never writes it.
\<close>

record 'f adjustment_range =
  lower :: 'f
  upper :: 'f
  page_size :: 'f

text \<open>
  What \<^verbatim>\<open>update_ui\<close> takes from outside the program: the two floating-point
  operations of the display code (the format \<^verbatim>\<open>:.1f\<close> and the division by 100 for
  a progress fraction), and the ranges the two vertical adjustments have while it
  runs.
\<close>

record 'f float_ops =
  fmt1 :: "'f \<Rightarrow> string"
  div100 :: "'f \<Rightarrow> 'f"
  vadj_process_range :: "'f adjustment_range"
  vadj_services_range :: "'f adjustment_range"

text \<open>
  \<^verbatim>\<open>selection.get_selected()\<close> followed by \<^verbatim>\<open>model[iter]\<close>: the selected row, or
  nothing. A selection never refers to a row that is not in the store.
\<close>

definition get_selected :: "'r list \<Rightarrow> nat option \<Rightarrow> 'r option" where
  "get_selected model sel =
     (case sel of
        None \<Rightarrow> None
      | Some i \<Rightarrow> if i < length model then Some (model ! i) else None)"

text \<open>\<^verbatim>\<open>ListStore.clear()\<close> removes every row, and with them the selection.\<close>

definition process_list_clear :: "'f window \<Rightarrow> 'f window" where
  "process_list_clear w = w\<lparr> process_list := [], process_selection := None \<rparr>"

definition services_list_clear :: "'f window \<Rightarrow> 'f window" where
  "services_list_clear w = w\<lparr> services_list := [], services_selection := None \<rparr>"

fun process_list_fill :: "'f process list \<Rightarrow> 'f window \<Rightarrow> 'f window" where
  "process_list_fill [] w = w"
| "process_list_fill (proc # rest) w =
     process_list_fill rest (w\<lparr> process_list := process_list w @ [proc] \<rparr>)"

fun services_list_fill :: "service list \<Rightarrow> 'f window \<Rightarrow> 'f window" where
  "services_list_fill [] w = w"
| "services_list_fill (service # rest) w =
     services_list_fill rest (w\<lparr> services_list := services_list w @ [service] \<rparr>)"

text \<open>
  \<^verbatim>\<open>for i, row in enumerate(...): if row[k] == selected: select_iter(row.iter); break\<close>.
  The result is the selection after the loop: \<open>sel\<close> when no row matched.
\<close>

fun select_loop :: "('r \<Rightarrow> 'k) \<Rightarrow> 'k \<Rightarrow> nat \<Rightarrow> 'r list \<Rightarrow> nat option \<Rightarrow> nat option" where
  "select_loop key selected i [] sel = sel"
| "select_loop key selected i (row # rows) sel =
     (if key row = selected then Some i
      else select_loop key selected (Suc i) rows sel)"

text \<open>
  The restoring blocks. Python's truth test in \<^verbatim>\<open>if selected_pid:\<close> and
  \<^verbatim>\<open>if selected_service:\<close> takes \<^verbatim>\<open>None\<close>, the integer 0 and the empty string
  as false.
\<close>

definition restore_process_selection :: "int option \<Rightarrow> 'f window \<Rightarrow> 'f window" where
  "restore_process_selection selected_pid w =
     (case selected_pid of
        None \<Rightarrow> w
      | Some pid \<Rightarrow>
          if pid \<noteq> 0
          then w\<lparr> process_selection :=
                   select_loop process_pid pid 0 (process_list w) (process_selection w) \<rparr>
          else w)"

definition restore_services_selection :: "string option \<Rightarrow> 'f window \<Rightarrow> 'f window" where
  "restore_services_selection selected_service w =
     (case selected_service of
        None \<Rightarrow> w
      | Some name \<Rightarrow>
          if name \<noteq> []
          then w\<lparr> services_selection :=
                   select_loop service_name name 0 (services_list w) (services_selection w) \<rparr>
          else w)"

text \<open>
  \<^verbatim>\<open>update_performance_ui\<close>. \<open>cpu_count\<close> is what \<^verbatim>\<open>psutil.cpu_count()\<close> returns when
  the labels are written: a number, or \<^verbatim>\<open>None\<close>.
\<close>

definition str_cpu_count :: "int option \<Rightarrow> string" where
  "str_cpu_count c = (case c of None \<Rightarrow> ''None'' | Some n \<Rightarrow> str_int n)"

definition update_performance_ui ::
  "'f float_ops \<Rightarrow> int option \<Rightarrow> 'f performance \<Rightarrow> 'f window \<Rightarrow> 'f window" where
  "update_performance_ui fl cpu_count performance w =
     (let mem_text = ''Used: '' @ str_int (memory_used performance) @ ''GB / ''
                     @ str_int (memory_total performance) @ ''GB ''
                     @ ''('' @ fmt1 fl (memory_percent performance) @ ''%)'';
          disk_text = ''Used: '' @ str_int (disk_used performance) @ ''GB / ''
                      @ str_int (disk_total performance) @ ''GB ''
                      @ ''('' @ fmt1 fl (disk_percent performance) @ ''%)'';
          info_text = ''Boot Time: '' @ boot_time performance @ [newline]
                      @ ''CPU Cores: '' @ str_cpu_count cpu_count @ [newline]
                      @ ''Memory Total: '' @ str_int (memory_total performance) @ ''GB''
      in w\<lparr> cpu_label := ''Total CPU Usage: '' @ fmt1 fl (cpu_percent performance) @ ''%'',
            cpu_progress_fraction := div100 fl (cpu_percent performance),
            cpu_progress_text := fmt1 fl (cpu_percent performance) @ ''%'',
            mem_label := mem_text,
            mem_progress_fraction := div100 fl (memory_percent performance),
            mem_progress_text := fmt1 fl (memory_percent performance) @ ''%'',
            disk_label := disk_text,
            disk_progress_fraction := div100 fl (disk_percent performance),
            disk_progress_text := fmt1 fl (disk_percent performance) @ ''%'',
            info_label := info_text \<rparr>)"

text \<open>
  The handlers \<^verbatim>\<open>connect_scroll_events\<close> attaches: when an adjustment's value
  changes, the new value is saved.
\<close>

definition on_processes_scroll :: "'f window \<Rightarrow> 'f window" where
  "on_processes_scroll w = w\<lparr> processes_scroll_pos := vadj_process w \<rparr>"

definition on_services_scroll :: "'f window \<Rightarrow> 'f window" where
  "on_services_scroll w = w\<lparr> services_scroll_pos := vadj_services w \<rparr>"

text \<open>
  \<^verbatim>\<open>Gtk.Adjustment.set_value\<close>: the value the adjustment takes. GTK brings the
  argument down to \<open>upper - page_size\<close> first and then up to \<open>lower\<close>, so that the
  result is never below \<open>lower\<close>.
\<close>

definition set_value :: "'f::{linorder,minus} adjustment_range \<Rightarrow> 'f \<Rightarrow> 'f" where
  "set_value rng v = max (min v (upper rng - page_size rng)) (lower rng)"

text \<open>
  \<^verbatim>\<open>restore_scroll_positions\<close>: each \<^verbatim>\<open>set_value\<close> is given the saved position and
  leaves the clamped position in the adjustment, whose value-changed handler saves
  it. When the value does not change GTK emits no signal; the saved position then
  already is the adjustment's value, since the handlers have kept the two equal
  from the moment they were connected, so that the model saves the value in both
  cases.
\<close>

definition restore_scroll_positions ::
  "'f::{linorder,minus} float_ops \<Rightarrow> 'f window \<Rightarrow> 'f window" where
  "restore_scroll_positions fl w =
     (let w1 = on_processes_scroll
                 (w\<lparr> vadj_process :=
                      set_value (vadj_process_range fl) (processes_scroll_pos w) \<rparr>);
          w2 = on_services_scroll
                 (w1\<lparr> vadj_services :=
                       set_value (vadj_services_range fl) (services_scroll_pos w1) \<rparr>)
      in w2)"

definition status_text :: "'f float_ops \<Rightarrow> 'f process list \<Rightarrow> 'f performance \<Rightarrow> string" where
  "status_text fl processes performance =
     ''Processes: '' @ str_nat (length processes) @ '' | ''
     @ ''CPU: '' @ fmt1 fl (cpu_percent performance) @ ''% | ''
     @ ''Memory: '' @ fmt1 fl (memory_percent performance) @ ''%''"

definition status_bar_push :: "string \<Rightarrow> 'f window \<Rightarrow> 'f window" where
  "status_bar_push msg w = w\<lparr> status_bar := msg # status_bar w \<rparr>"

text \<open>
  The identity captured at the start of \<^verbatim>\<open>update_ui\<close>: column 1 of the selected
  process row and column 0 of the selected service row, or \<^verbatim>\<open>None\<close>.
\<close>

definition selected_pid :: "'f window \<Rightarrow> int option" where
  "selected_pid w =
     map_option process_pid (get_selected (process_list w) (process_selection w))"

definition selected_service :: "'f window \<Rightarrow> string option" where
  "selected_service w =
     map_option service_name (get_selected (services_list w) (services_selection w))"

text \<open>\<^verbatim>\<open>update_ui\<close>, statement by statement.\<close>

definition update_ui ::
  "'f::{linorder,minus} float_ops \<Rightarrow> int option \<Rightarrow> 'f process list \<Rightarrow> service list \<Rightarrow> 'f performance
   \<Rightarrow> 'f window \<Rightarrow> 'f window" where
  "update_ui fl cpu_count processes services performance w =
     (let pid = selected_pid w;
          name = selected_service w;
          w1 = process_list_fill processes (process_list_clear w);
          w2 = services_list_fill services (services_list_clear w1);
          w3 = restore_process_selection pid w2;
          w4 = restore_services_selection name w3;
          w5 = update_performance_ui fl cpu_count performance w4;
          w6 = restore_scroll_positions fl w5
      in status_bar_push (status_text fl processes performance) w6)"

subsection \<open>The sampler loop: \<^verbatim>\<open>update_data\<close>\<close>

text \<open>What the operating system answers during one iteration of the loop.\<close>

record 'f os_answers =
  os_process_iter :: "'f proc list"
  os_systemctl :: run_outcome
  os_cpu_percent :: 'f
  os_virtual_memory :: "'f svmem"
  os_disk_usage :: "'f sdiskusage"
  os_boot_time :: string

text \<open>
  What the sampler thread does, in the order it does it: a call of one of the
  three capture functions, \<^verbatim>\<open>GLib.idle_add(self.update_ui, ...)\<close> with its arguments,
  \<^verbatim>\<open>time.sleep\<close> with its argument, or an exception that ends the thread.
\<close>

datatype 'f event =
  Get_processes
  | Get_services
  | Get_performance_data
  | Idle_add "'f process list" "service list" "'f performance"
  | Sleep int
  | Uncaught py_exception

definition update_interval :: int where
  "update_interval = 10"

text \<open>
  \<^verbatim>\<open>update_thread\<close>: \<^verbatim>\<open>while True\<close> never ends, so the model runs a given number of
  iterations. \<open>i\<close> counts the iterations done and \<open>trace\<close> is what the thread has done
  so far.
\<close>

fun update_thread ::
  "(nat \<Rightarrow> 'f os_answers) \<Rightarrow> nat \<Rightarrow> nat \<Rightarrow> 'f event list \<Rightarrow> 'f event list" where
  "update_thread os 0 i trace = trace"
| "update_thread os (Suc fuel) i trace =
     (let processes = get_processes (os_process_iter (os i));
          trace1 = trace @ [Get_processes]
      in case get_services (os_systemctl (os i)) of
           Inl e \<Rightarrow> trace1 @ [Get_services, Uncaught e]
         | Inr services \<Rightarrow>
             (let trace2 = trace1 @ [Get_services];
                  performance =
                    get_performance_data (os_cpu_percent (os i)) (os_virtual_memory (os i))
                      (os_disk_usage (os i)) (os_boot_time (os i));
                  trace3 = trace2 @ [Get_performance_data];
                  trace4 = trace3 @ [Idle_add processes services performance];
                  trace5 = trace4 @ [Sleep update_interval]
              in update_thread os fuel (Suc i) trace5))"

text \<open>One iteration as the claim describes it, for comparison with the loop.\<close>

definition iteration_events :: "(nat \<Rightarrow> 'f os_answers) \<Rightarrow> nat \<Rightarrow> 'f event list" where
  "iteration_events os i =
     [Get_processes, Get_services, Get_performance_data,
      Idle_add (get_processes (os_process_iter (os i)))
        (case get_services (os_systemctl (os i)) of Inr services \<Rightarrow> services | Inl e \<Rightarrow> [])
        (get_performance_data (os_cpu_percent (os i)) (os_virtual_memory (os i))
           (os_disk_usage (os i)) (os_boot_time (os i))),
      Sleep update_interval]"

subsection \<open>Notions of the specification\<close>


text \<open>
  The specification's \<open>ViewState\<close>: the selected process by PID, the selected service
  by name, and the two saved scroll offsets.
\<close>

definition view_state :: "'f window \<Rightarrow> int option \<times> string option \<times> 'f \<times> 'f" where
  "view_state w =
     (selected_pid w, selected_service w, processes_scroll_pos w, services_scroll_pos w)"



subsection \<open>Example data\<close>

text \<open>
  A window with given rows and selections, both lists scrolled (to 120 and to 40,
  the offsets saved and the adjustments' values alike), and one message in the
  status bar. The adjustments range over 0 to 600 with a page of 200, and over 0
  to 300 with a page of 100. The scenario of the specification is the window
  \<open>example_scenario\<close>: three processes with PIDs 10, 20 and 30, the row of PID 20
  selected, the placeholder services with \<^verbatim>\<open>cron.service\<close> selected.
\<close>

definition example_row :: "string \<Rightarrow> int \<Rightarrow> real process" where
  "example_row name pid = (name, pid, ''sleeping'', ''root'', 0, 0)"

definition example_ops :: "real float_ops" where
  "example_ops =
     \<lparr> fmt1 = (\<lambda>x. ''55.5''), div100 = (\<lambda>x. x / 100),
       vadj_process_range = \<lparr> lower = 0, upper = 600, page_size = 200 \<rparr>,
       vadj_services_range = \<lparr> lower = 0, upper = 300, page_size = 100 \<rparr> \<rparr>"

definition example_window ::
  "real process list \<Rightarrow> nat option \<Rightarrow> service list \<Rightarrow> nat option \<Rightarrow> real window" where
  "example_window rows sel srows ssel =
     \<lparr> process_list = rows,
       process_selection = sel,
       services_list = srows,
       services_selection = ssel,
       processes_scroll_pos = 120,
       services_scroll_pos = 40,
       vadj_process = 120,
       vadj_services = 40,
       status_bar = [''Refreshing...''],
       cpu_label = [],
       cpu_progress_fraction = 0,
       cpu_progress_text = [],
       mem_label = [],
       mem_progress_fraction = 0,
       mem_progress_text = [],
       disk_label = [],
       disk_progress_fraction = 0,
       disk_progress_text = [],
       info_label = [] \<rparr>"

definition example_scenario :: "real window" where
  "example_scenario =
     example_window [example_row ''a'' 10, example_row ''b'' 20, example_row ''c'' 30]
       (Some 1) fallback_services (Some 1)"

definition example_performance :: "real performance" where
  "example_performance =
     get_performance_data 55.5
       \<lparr> vm_total = 17179869184, vm_used = 8589934592, vm_percent = 50 \<rparr>
       \<lparr> du_total = 107374182400, du_used = 2040109465, du_percent = 1.9 \<rparr>
       ''2025-01-01 08:00:00''"

text \<open>
  A unit listing: the header, five lines of which the third has two fields only,
  and a sixth unit that the slice leaves out.
\<close>

definition example_listing :: string where
  "example_listing =
     ''UNIT LOAD ACTIVE SUB DESCRIPTION'' @ [newline]
     @ ''  acpid.service loaded active running ACPI event daemon'' @ [newline]
     @ ''  cron.service loaded active running Regular background processing'' @ [newline]
     @ ''  dbus.service loaded'' @ [newline]
     @ ''  ssh.service loaded active running OpenBSD Secure Shell server'' @ [newline]
     @ ''  ufw.service loaded active exited Uncomplicated firewall'' @ [newline]
     @ ''  udev.service loaded active running Rule-based Manager'' @ [newline]"

definition example_os :: "nat \<Rightarrow> real os_answers" where
  "example_os i =
     \<lparr> os_process_iter =
         [Info \<lparr> info_name = ''init'', info_pid = 1, info_status = ''sleeping'',
                 info_username = ''root'', info_cpu_percent = 0, info_memory_percent = 0 \<rparr>,
          AccessDenied],
       os_systemctl = (if i = 0 then Inl FileNotFoundError
                       else Inr \<lparr> returncode = 0, stdout = example_listing \<rparr>),
       os_cpu_percent = 55.5,
       os_virtual_memory = \<lparr> vm_total = 17179869184, vm_used = 8589934592, vm_percent = 50 \<rparr>,
       os_disk_usage = \<lparr> du_total = 107374182400, du_used = 2040109465, du_percent = 1.9 \<rparr>,
       os_boot_time = ''2025-01-01 08:00:00'' \<rparr>"

section \<open>Properties\<close>

subsection \<open>Strings and the service source\<close>

lemma split_ws_all_space:
  "\<forall>c \<in> set s. isspace c \<Longrightarrow> split_ws [] s = []"
  by (induction s) simp_all

lemma str_strip_empty_iff: "str_strip s = [] \<longleftrightarrow> (\<forall>c \<in> set s. isspace c)"
proof
  assume blank: "str_strip s = []"
  show "\<forall>c \<in> set s. isspace c"
  proof (rule ccontr)
    assume "\<not> (\<forall>c \<in> set s. isspace c)"
    then have ne: "dropWhile isspace s \<noteq> []"
      by (simp add: dropWhile_eq_Nil_conv)
    then have "\<not> isspace (hd (dropWhile isspace s))"
      by (rule hd_dropWhile)
    moreover have "hd (dropWhile isspace s) \<in> set (dropWhile isspace s)"
      using ne by simp
    ultimately show False
      using blank by (auto simp: str_strip_def dropWhile_eq_Nil_conv)
  qed
next
  assume "\<forall>c \<in> set s. isspace c"
  then have "dropWhile isspace s = []"
    by (simp add: dropWhile_eq_Nil_conv)
  then show "str_strip s = []"
    by (simp add: str_strip_def del: dropWhile_eq_Nil_conv)
qed

lemma str_split_blank: "str_strip line = [] \<Longrightarrow> str_split line = []"
  by (simp add: str_split_def str_strip_empty_iff split_ws_all_space)

text \<open>
  The loop appends, for each line in turn, nothing or one row; the test
  \<^verbatim>\<open>if line.strip()\<close> excludes nothing that the length test would let through.
\<close>

lemma services_loop_concat:
  "services_loop lines services =
     services @ concat (map (\<lambda>line. if length (str_split line) < 4 then []
        else [(str_split line ! 0, str_split line ! 3, ''System Service'', ''N/A'')]) lines)"
proof (induction lines arbitrary: services)
  case Nil
  show ?case by simp
next
  case (Cons line rest)
  show ?case
  proof (cases "str_strip line = []")
    case True
    then show ?thesis using Cons.IH by (simp add: str_split_blank)
  next
    case False
    then show ?thesis using Cons.IH by (simp add: Let_def)
  qed
qed

lemma get_services_completed:
  "get_services (Inr result) =
     Inr (services_loop (take 5 (drop 1 (split_lines (stdout result)))) [])"
  by (simp add: get_services_def get_services_try_def slice_def)

lemma services_loop_constant_columns:
  "r \<in> set (services_loop lines services)
   \<Longrightarrow> r \<in> set services
       \<or> (service_description r = ''System Service'' \<and> service_pid r = ''N/A'')"
  by (auto simp: services_loop_concat service_description_def service_pid_def
      split: if_splits)

lemma example_listing_lines:
  "split_lines example_listing =
     [''UNIT LOAD ACTIVE SUB DESCRIPTION'',
      ''  acpid.service loaded active running ACPI event daemon'',
      ''  cron.service loaded active running Regular background processing'',
      ''  dbus.service loaded'',
      ''  ssh.service loaded active running OpenBSD Secure Shell server'',
      ''  ufw.service loaded active exited Uncomplicated firewall'',
      ''  udev.service loaded active running Rule-based Manager'',
      []]"
  by (simp add: example_listing_def split_lines_def newline_def)

text \<open>
  A query that completes with exit status 1 and an empty output (systemd is not
  running) does not raise: the placeholder rows are not returned, the list is
  empty.
\<close>

theorem get_services_nonzero_exit_counterexample:
  "returncode \<lparr> returncode = 1, stdout = [] \<rparr> \<noteq> 0
   \<and> get_services (Inr \<lparr> returncode = 1, stdout = [] \<rparr>) = Inr []
   \<and> get_services (Inr \<lparr> returncode = 1, stdout = [] \<rparr>) \<noteq> Inr fallback_services"
  by (simp add: get_services_completed split_lines_def fallback_services_def)

text \<open>
  Claim C1, as the code has it. \<^verbatim>\<open>get_services\<close> returns the three placeholder rows
  (\<^verbatim>\<open>ssh.service\<close>, \<^verbatim>\<open>cron.service\<close>, \<^verbatim>\<open>nginx.service\<close>, all \<^verbatim>\<open>active\<close>) whenever
  invoking the query raises. When the query completes, its exit status is not
  looked at: the result is the same as for exit status 0, parsed from the output
  alone, and is never the placeholder list. In every case a list is returned and
  no exception leaves the function.
\<close>

theorem get_services_fallback:
  "get_services (Inl e) = Inr fallback_services
   \<and> map (\<lambda>r. (service_name r, service_status r)) fallback_services =
       [(''ssh.service'', ''active''), (''cron.service'', ''active''),
        (''nginx.service'', ''active'')]
   \<and> get_services (Inr result) = get_services (Inr (result\<lparr> returncode := 0 \<rparr>))
   \<and> get_services (Inr result) \<noteq> Inr fallback_services
   \<and> (\<exists>services. get_services run = Inr services)"
proof -
  have raised: "get_services (Inl e) = Inr fallback_services"
    by (simp add: get_services_def get_services_try_def)
  have names: "map (\<lambda>r. (service_name r, service_status r)) fallback_services =
       [(''ssh.service'', ''active''), (''cron.service'', ''active''),
        (''nginx.service'', ''active'')]"
    by (simp add: fallback_services_def service_name_def service_status_def)
  have status: "get_services (Inr result) = get_services (Inr (result\<lparr> returncode := 0 \<rparr>))"
    by (simp add: get_services_completed)
  have differs: "get_services (Inr result) \<noteq> Inr fallback_services"
  proof
    assume same: "get_services (Inr result) = Inr fallback_services"
    have "(''ssh.service'', ''active'', ''OpenSSH Server'', ''1234'') \<in> set fallback_services"
      by (simp add: fallback_services_def)
    then have "(''ssh.service'', ''active'', ''OpenSSH Server'', ''1234'')
        \<in> set (services_loop (take 5 (drop 1 (split_lines (stdout result)))) [])"
      using same by (simp add: get_services_completed)
    from services_loop_constant_columns [OF this] show False
      by (simp add: service_description_def)
  qed
  have total: "\<exists>services. get_services run = Inr services"
    by (cases run) (simp_all add: get_services_def get_services_try_def)
  from raised names status differs total show ?thesis by blast
qed

theorem get_services_fallback_witness:
  "get_services (Inl FileNotFoundError) =
     Inr [(''ssh.service'', ''active'', ''OpenSSH Server'', ''1234''),
          (''cron.service'', ''active'', ''Cron Daemon'', ''5678''),
          (''nginx.service'', ''active'', ''Web Server'', ''9012'')]"
  using get_services_fallback [of FileNotFoundError "\<lparr> returncode = 0, stdout = [] \<rparr>"
      "Inl FileNotFoundError"]
  by (simp add: fallback_services_def)

text \<open>
  Claim C4. Of the lines of the query's output, only the five after the first are
  read. A line with fewer than four whitespace-separated fields gives no row; a
  line with at least four gives exactly one row, whose name is field 0 and whose
  status is field 3.
\<close>

theorem get_services_parse:
  "get_services (Inr result) =
     Inr (concat (map (\<lambda>line. if length (str_split line) < 4 then []
            else [(str_split line ! 0, str_split line ! 3, ''System Service'', ''N/A'')])
          (take 5 (drop 1 (split_lines (stdout result))))))"
  by (simp add: get_services_completed services_loop_concat)

theorem get_services_parse_witness:
  "get_services (Inr \<lparr> returncode = 0, stdout = example_listing \<rparr>) =
     Inr [(''acpid.service'', ''running'', ''System Service'', ''N/A''),
          (''cron.service'', ''running'', ''System Service'', ''N/A''),
          (''ssh.service'', ''running'', ''System Service'', ''N/A''),
          (''ufw.service'', ''exited'', ''System Service'', ''N/A'')]"
  using get_services_parse [of "\<lparr> returncode = 0, stdout = example_listing \<rparr>"]
  by (simp add: example_listing_lines str_split_def isspace_def)

text \<open>
  Claim C9. Every row parsed from the query's output has the description
  \<^verbatim>\<open>System Service\<close> and the pid \<^verbatim>\<open>N/A\<close>, whatever the output contains.
\<close>

theorem parsed_services_constant_columns:
  "get_services (Inr result) = Inr services \<Longrightarrow> r \<in> set services
   \<Longrightarrow> service_description r = ''System Service'' \<and> service_pid r = ''N/A''"
  using services_loop_constant_columns [of r _ "[]"]
  by (auto simp: get_services_completed)

theorem parsed_services_constant_columns_witness:
  "get_services (Inr \<lparr> returncode = 0, stdout = example_listing \<rparr>) =
     Inr [(''acpid.service'', ''running'', ''System Service'', ''N/A''),
          (''cron.service'', ''running'', ''System Service'', ''N/A''),
          (''ssh.service'', ''running'', ''System Service'', ''N/A''),
          (''ufw.service'', ''exited'', ''System Service'', ''N/A'')]
   \<and> (''ufw.service'', ''exited'', ''System Service'', ''N/A'')
       \<in> set [(''acpid.service'', ''running'', ''System Service'', ''N/A''),
          (''cron.service'', ''running'', ''System Service'', ''N/A''),
          (''ssh.service'', ''running'', ''System Service'', ''N/A''),
          (''ufw.service'', ''exited'', ''System Service'', ''N/A'')]
   \<and> service_description (''ufw.service'', ''exited'', ''System Service'', ''N/A'')
       = ''System Service''
   \<and> service_pid (''ufw.service'', ''exited'', ''System Service'', ''N/A'') = ''N/A''"
proof -
  have run: "get_services (Inr \<lparr> returncode = 0, stdout = example_listing \<rparr>) =
     Inr [(''acpid.service'', ''running'', ''System Service'', ''N/A''),
          (''cron.service'', ''running'', ''System Service'', ''N/A''),
          (''ssh.service'', ''running'', ''System Service'', ''N/A''),
          (''ufw.service'', ''exited'', ''System Service'', ''N/A'')]"
    by (simp add: get_services_completed example_listing_lines str_split_def str_strip_def
        isspace_def)
  have mem: "(''ufw.service'', ''exited'', ''System Service'', ''N/A'')
       \<in> set [(''acpid.service'', ''running'', ''System Service'', ''N/A''),
          (''cron.service'', ''running'', ''System Service'', ''N/A''),
          (''ssh.service'', ''running'', ''System Service'', ''N/A''),
          (''ufw.service'', ''exited'', ''System Service'', ''N/A'')]"
    by simp
  show ?thesis
    using run mem parsed_services_constant_columns [OF run mem] by simp
qed

subsection \<open>The process source\<close>




subsection \<open>The performance source\<close>

text \<open>
  Claim C5. Each of the four byte quantities is reported as its quotient by
  \<open>1024 ^ 3\<close>, rounded down: the reported gigabytes never exceed the quantity, and
  one gigabyte more would.
\<close>

theorem get_performance_data_gigabytes:
  "memory_used (get_performance_data cpu memory disk boot) = vm_used memory div 1024 ^ 3
   \<and> memory_total (get_performance_data cpu memory disk boot) = vm_total memory div 1024 ^ 3
   \<and> disk_used (get_performance_data cpu memory disk boot) = du_used disk div 1024 ^ 3
   \<and> disk_total (get_performance_data cpu memory disk boot) = du_total disk div 1024 ^ 3
   \<and> memory_used (get_performance_data cpu memory disk boot) * 1024 ^ 3 \<le> vm_used memory
   \<and> vm_used memory < (memory_used (get_performance_data cpu memory disk boot) + 1) * 1024 ^ 3
   \<and> memory_total (get_performance_data cpu memory disk boot) * 1024 ^ 3 \<le> vm_total memory
   \<and> vm_total memory < (memory_total (get_performance_data cpu memory disk boot) + 1) * 1024 ^ 3
   \<and> disk_used (get_performance_data cpu memory disk boot) * 1024 ^ 3 \<le> du_used disk
   \<and> du_used disk < (disk_used (get_performance_data cpu memory disk boot) + 1) * 1024 ^ 3
   \<and> disk_total (get_performance_data cpu memory disk boot) * 1024 ^ 3 \<le> du_total disk
   \<and> du_total disk < (disk_total (get_performance_data cpu memory disk boot) + 1) * 1024 ^ 3"
proof -
  have floor: "b div 1024 ^ 3 * 1024 ^ 3 \<le> b \<and> b < (b div 1024 ^ 3 + 1) * 1024 ^ 3"
    for b :: int
    by simp presburger
  show ?thesis
    using floor [of "vm_used memory"] floor [of "vm_total memory"]
      floor [of "du_used disk"] floor [of "du_total disk"]
    by (simp add: get_performance_data_def)
qed

text \<open>1.9 GiB, that is 2040109465 bytes, is reported as 1.\<close>

theorem get_performance_data_gigabytes_witness:
  "memory_used (get_performance_data (55.5 :: real)
      \<lparr> vm_total = 17179869184, vm_used = 2040109465, vm_percent = 11.9 \<rparr>
      \<lparr> du_total = 107374182400, du_used = 2040109465, du_percent = 1.9 \<rparr>
      ''2025-01-01 08:00:00'') = 1"
  using get_performance_data_gigabytes [of "55.5 :: real"
      "\<lparr> vm_total = 17179869184, vm_used = 2040109465, vm_percent = 11.9 \<rparr>"
      "\<lparr> du_total = 107374182400, du_used = 2040109465, du_percent = 1.9 \<rparr>"
      "''2025-01-01 08:00:00''"]
  by simp

subsection \<open>The reconciler\<close>

lemma process_list_fill_eq:
  "process_list_fill ps w = w\<lparr> process_list := process_list w @ ps \<rparr>"
  by (induction ps arbitrary: w) simp_all

lemma services_list_fill_eq:
  "services_list_fill ss w = w\<lparr> services_list := services_list w @ ss \<rparr>"
  by (induction ss arbitrary: w) simp_all

lemma select_loop_None_iff:
  "select_loop key selected i rows None = None \<longleftrightarrow> selected \<notin> key ` set rows"
  by (induction rows arbitrary: i) auto

lemma select_loop_first_match:
  "j < length rows \<Longrightarrow> key (rows ! j) = selected
   \<Longrightarrow> \<forall>m<j. key (rows ! m) \<noteq> selected
   \<Longrightarrow> select_loop key selected i rows sel = Some (i + j)"
proof (induction rows arbitrary: i j)
  case Nil
  then show ?case by simp
next
  case (Cons row rows)
  show ?case
  proof (cases j)
    case 0
    with Cons.prems show ?thesis by simp
  next
    case (Suc k)
    have "key row \<noteq> selected"
      using Cons.prems(3) Suc by auto
    moreover have "select_loop key selected (Suc i) rows sel = Some (Suc i + k)"
    proof (rule Cons.IH)
      show "k < length rows" using Cons.prems(1) Suc by simp
      show "key (rows ! k) = selected" using Cons.prems(2) Suc by simp
      show "\<forall>m<k. key (rows ! m) \<noteq> selected"
        using Cons.prems(3) Suc by auto
    qed
    ultimately show ?thesis using Suc by simp
  qed
qed

lemma select_loop_result:
  "select_loop key selected i rows None = Some n
   \<Longrightarrow> i \<le> n \<and> n - i < length rows \<and> key (rows ! (n - i)) = selected"
proof (induction rows arbitrary: i)
  case Nil
  then show ?case by simp
next
  case (Cons row rows)
  show ?case
  proof (cases "key row = selected")
    case True
    with Cons.prems show ?thesis by simp
  next
    case False
    with Cons.prems have "select_loop key selected (Suc i) rows None = Some n" by simp
    from Cons.IH [OF this]
    have ih: "Suc i \<le> n" "n - Suc i < length rows" "key (rows ! (n - Suc i)) = selected"
      by simp_all
    have "n - i = Suc (n - Suc i)"
      using ih(1) by simp
    then show ?thesis
      using ih by simp
  qed
qed

lemmas update_ui_unfold =
  update_ui_def Let_def status_bar_push_def restore_scroll_positions_def
  on_processes_scroll_def on_services_scroll_def update_performance_ui_def
  restore_services_selection_def restore_process_selection_def
  process_list_fill_eq services_list_fill_eq process_list_clear_def services_list_clear_def

lemma update_ui_process_list:
  "process_list (update_ui fl c ps ss perf w) = ps"
  by (simp add: update_ui_unfold split: option.splits)

lemma update_ui_services_list:
  "services_list (update_ui fl c ps ss perf w) = ss"
  by (simp add: update_ui_unfold split: option.splits)

lemma update_ui_process_selection:
  "process_selection (update_ui fl c ps ss perf w) =
     (case selected_pid w of
        None \<Rightarrow> None
      | Some pid \<Rightarrow> if pid \<noteq> 0 then select_loop process_pid pid 0 ps None else None)"
  by (simp add: update_ui_unfold split: option.splits)

lemma update_ui_services_selection:
  "services_selection (update_ui fl c ps ss perf w) =
     (case selected_service w of
        None \<Rightarrow> None
      | Some name \<Rightarrow> if name \<noteq> [] then select_loop service_name name 0 ss None else None)"
  by (simp add: update_ui_unfold split: option.splits)







lemma example_scenario_view_state:
  "view_state example_scenario = (Some 20, Some ''cron.service'', 120, 40)"
  by (simp add: view_state_def selected_pid_def selected_service_def get_selected_def
      example_scenario_def example_window_def example_row_def fallback_services_def
      process_pid_def service_name_def)

text \<open>
  Away from PID 0 and the empty name the selection is restored. Let a process row
  with PID \<open>P\<close>, \<open>P\<close> not 0, be selected before \<^verbatim>\<open>update_ui\<close>. Afterwards the rows are
  those of the new snapshot; if one of them has PID \<open>P\<close>, a row with PID \<open>P\<close> is
  selected, and if none has, nothing is selected. Likewise for a selected service
  with a name \<open>N\<close> that is not empty, as every name \<^verbatim>\<open>get_services\<close> returns is.
\<close>

lemma update_ui_restores_selection:
  "(selected_pid w = Some P \<and> P \<noteq> 0 \<longrightarrow>
      process_list (update_ui fl c ps ss perf w) = ps
      \<and> (P \<in> process_pid ` set ps \<longrightarrow>
           (\<exists>i. process_selection (update_ui fl c ps ss perf w) = Some i
                \<and> i < length ps \<and> process_pid (ps ! i) = P))
      \<and> (P \<notin> process_pid ` set ps \<longrightarrow>
           process_selection (update_ui fl c ps ss perf w) = None))
   \<and> (selected_service w = Some N \<and> N \<noteq> [] \<longrightarrow>
      services_list (update_ui fl c ps ss perf w) = ss
      \<and> (N \<in> service_name ` set ss \<longrightarrow>
           (\<exists>i. services_selection (update_ui fl c ps ss perf w) = Some i
                \<and> i < length ss \<and> service_name (ss ! i) = N))
      \<and> (N \<notin> service_name ` set ss \<longrightarrow>
           services_selection (update_ui fl c ps ss perf w) = None))"
proof -
  have found: "\<exists>i. select_loop key k 0 rows None = Some i \<and> i < length rows \<and> key (rows ! i) = k"
    if "k \<in> key ` set rows" for key :: "'r \<Rightarrow> 'k" and k rows
  proof -
    from that have "select_loop key k 0 rows None \<noteq> None"
      by (simp add: select_loop_None_iff)
    then obtain i where i: "select_loop key k 0 rows None = Some i" by auto
    from select_loop_result [OF i] i show ?thesis by simp
  qed
  have missing: "select_loop key k 0 rows None = None"
    if "k \<notin> key ` set rows" for key :: "'r \<Rightarrow> 'k" and k rows
    using that by (simp add: select_loop_None_iff)
  show ?thesis
    using found [of P process_pid ps] missing [of P process_pid ps]
      found [of N service_name ss] missing [of N service_name ss]
    by (simp add: update_ui_process_selection update_ui_services_selection
        update_ui_process_list update_ui_services_list)
qed

text \<open>
  The scenario of the specification: PID 20 is selected and has exited, so nothing
  is selected among the two remaining rows; \<^verbatim>\<open>cron.service\<close> is selected and still
  listed, now in the first row, which is selected.
\<close>

lemma update_ui_scenario:
  "process_list
        (update_ui example_ops (Some 4) [example_row ''a'' 10, example_row ''c'' 30]
           [(''cron.service'', ''running'', ''System Service'', ''N/A'')]
           example_performance example_scenario)
       = [example_row ''a'' 10, example_row ''c'' 30]
   \<and> process_selection
        (update_ui example_ops (Some 4) [example_row ''a'' 10, example_row ''c'' 30]
           [(''cron.service'', ''running'', ''System Service'', ''N/A'')]
           example_performance example_scenario) = None
   \<and> services_selection
        (update_ui example_ops (Some 4) [example_row ''a'' 10, example_row ''c'' 30]
           [(''cron.service'', ''running'', ''System Service'', ''N/A'')]
           example_performance example_scenario) = Some 0"
proof -
  have view: "selected_pid example_scenario = Some 20"
    "selected_service example_scenario = Some ''cron.service''"
    using example_scenario_view_state by (simp_all add: view_state_def)
  have gone: "20 \<notin> process_pid ` set [example_row ''a'' 10, example_row ''c'' 30]"
    by (simp add: example_row_def process_pid_def)
  have listed: "''cron.service''
      \<in> service_name ` set [(''cron.service'', ''running'', ''System Service'', ''N/A'')]"
    by (simp add: service_name_def)
  show ?thesis
    using view gone listed
      update_ui_restores_selection [of example_scenario 20 example_ops "Some 4"
        "[example_row ''a'' 10, example_row ''c'' 30]"
        "[(''cron.service'', ''running'', ''System Service'', ''N/A'')]"
        example_performance "''cron.service''"]
    by auto
qed

text \<open>
  Claim C3 asks that a selected process whose PID is still in the new snapshot
  stays selected. The code does not do so for PID 0, which a process has where the
  kernel is listed as one: with that row selected and the new snapshot holding the
  same row, the captured PID 0 fails the test \<^verbatim>\<open>if selected_pid:\<close>, the restoring
  loop is skipped, and nothing is selected after \<^verbatim>\<open>update_ui\<close>.
\<close>

theorem update_ui_pid_zero_not_restored:
  "selected_pid (example_window [example_row ''kernel_task'' 0, example_row ''launchd'' 1]
        (Some 0) fallback_services None) = Some 0
   \<and> 0 \<in> process_pid ` set [example_row ''kernel_task'' 0, example_row ''launchd'' 1]
   \<and> process_list
        (update_ui example_ops (Some 4)
           [example_row ''kernel_task'' 0, example_row ''launchd'' 1] fallback_services
           example_performance
           (example_window [example_row ''kernel_task'' 0, example_row ''launchd'' 1]
              (Some 0) fallback_services None))
       = [example_row ''kernel_task'' 0, example_row ''launchd'' 1]
   \<and> process_selection
        (update_ui example_ops (Some 4)
           [example_row ''kernel_task'' 0, example_row ''launchd'' 1] fallback_services
           example_performance
           (example_window [example_row ''kernel_task'' 0, example_row ''launchd'' 1]
              (Some 0) fallback_services None)) = None"
  by (simp add: update_ui_process_selection update_ui_process_list selected_pid_def
      get_selected_def example_window_def example_row_def process_pid_def)



text \<open>
  Claim C10. A selected process row with PID 0 and a selected service row with the
  empty name are not selected again, whatever the new rows are. For any other
  captured PID or name, the first row of the new snapshot that has it, in order,
  is the one selected.
\<close>

theorem update_ui_truthiness_and_first_match:
  "(selected_pid w = Some 0 \<longrightarrow>
      process_selection (update_ui fl c ps ss perf w) = None)
   \<and> (selected_service w = Some [] \<longrightarrow>
      services_selection (update_ui fl c ps ss perf w) = None)
   \<and> (selected_pid w = Some P \<and> P \<noteq> 0 \<and> i < length ps \<and> process_pid (ps ! i) = P
       \<and> (\<forall>j<i. process_pid (ps ! j) \<noteq> P) \<longrightarrow>
      process_selection (update_ui fl c ps ss perf w) = Some i)
   \<and> (selected_service w = Some N \<and> N \<noteq> [] \<and> k < length ss \<and> service_name (ss ! k) = N
       \<and> (\<forall>j<k. service_name (ss ! j) \<noteq> N) \<longrightarrow>
      services_selection (update_ui fl c ps ss perf w) = Some k)"
  using select_loop_first_match [of i ps process_pid P 0 None]
    select_loop_first_match [of k ss service_name N 0 None]
  by (simp add: update_ui_process_selection update_ui_services_selection)

theorem update_ui_truthiness_and_first_match_witness:
  "selected_pid (example_window [example_row ''swapper'' 0] (Some 0)
       [([], ''active'', ''System Service'', ''N/A'')] (Some 0)) = Some 0
   \<and> selected_service (example_window [example_row ''swapper'' 0] (Some 0)
       [([], ''active'', ''System Service'', ''N/A'')] (Some 0)) = Some []
   \<and> process_selection
        (update_ui example_ops (Some 4) [example_row ''swapper'' 0]
           [([], ''active'', ''System Service'', ''N/A'')] example_performance
           (example_window [example_row ''swapper'' 0] (Some 0)
              [([], ''active'', ''System Service'', ''N/A'')] (Some 0))) = None
   \<and> services_selection
        (update_ui example_ops (Some 4) [example_row ''swapper'' 0]
           [([], ''active'', ''System Service'', ''N/A'')] example_performance
           (example_window [example_row ''swapper'' 0] (Some 0)
              [([], ''active'', ''System Service'', ''N/A'')] (Some 0))) = None
   \<and> selected_pid example_scenario = Some 20
   \<and> selected_service example_scenario = Some ''cron.service''
   \<and> process_selection
        (update_ui example_ops (Some 4)
           [example_row ''a'' 10, example_row ''b'' 20, example_row ''b2'' 20]
           [(''ssh.service'', ''running'', ''System Service'', ''N/A''),
            (''cron.service'', ''running'', ''System Service'', ''N/A''),
            (''cron.service'', ''exited'', ''System Service'', ''N/A'')]
           example_performance example_scenario) = Some 1
   \<and> services_selection
        (update_ui example_ops (Some 4)
           [example_row ''a'' 10, example_row ''b'' 20, example_row ''b2'' 20]
           [(''ssh.service'', ''running'', ''System Service'', ''N/A''),
            (''cron.service'', ''running'', ''System Service'', ''N/A''),
            (''cron.service'', ''exited'', ''System Service'', ''N/A'')]
           example_performance example_scenario) = Some 1"
proof -
  let ?w0 = "example_window [example_row ''swapper'' 0] (Some 0)
       [([], ''active'', ''System Service'', ''N/A'')] (Some 0)"
  let ?ps = "[example_row ''a'' 10, example_row ''b'' 20, example_row ''b2'' 20]"
  let ?ss = "[(''ssh.service'', ''running'', ''System Service'', ''N/A''),
            (''cron.service'', ''running'', ''System Service'', ''N/A''),
            (''cron.service'', ''exited'', ''System Service'', ''N/A'')]"
  have zero: "selected_pid ?w0 = Some 0" "selected_service ?w0 = Some []"
    by (simp_all add: selected_pid_def selected_service_def get_selected_def
        example_window_def example_row_def process_pid_def service_name_def)
  have view: "selected_pid example_scenario = Some 20"
    "selected_service example_scenario = Some ''cron.service''"
    using example_scenario_view_state by (simp_all add: view_state_def)
  have first_pid: "(1 :: nat) < length ?ps" "process_pid (?ps ! 1) = 20"
    "\<forall>j<(1 :: nat). process_pid (?ps ! j) \<noteq> 20"
    by (simp_all add: example_row_def process_pid_def)
  have first_name: "(1 :: nat) < length ?ss" "service_name (?ss ! 1) = ''cron.service''"
    "\<forall>j<(1 :: nat). service_name (?ss ! j) \<noteq> ''cron.service''"
    by (simp_all add: service_name_def)
  show ?thesis
    using zero view first_pid first_name
      update_ui_truthiness_and_first_match [of ?w0 example_ops "Some 4"
        "[example_row ''swapper'' 0]" "[([], ''active'', ''System Service'', ''N/A'')]"
        example_performance 1 0 "[]" 0]
      update_ui_truthiness_and_first_match [of example_scenario example_ops "Some 4"
        ?ps ?ss example_performance 20 1 "''cron.service''" 1]
    by simp
qed





subsection \<open>The sampler loop\<close>

lemma get_services_returns: "\<exists>services. get_services run = Inr services"
  by (cases run) (simp_all add: get_services_def get_services_try_def)

lemma update_thread_step:
  "update_thread os (Suc fuel) i trace =
     update_thread os fuel (Suc i) (trace @ iteration_events os i)"
proof -
  obtain services where "get_services (os_systemctl (os i)) = Inr services"
    using get_services_returns by blast
  then show ?thesis
    by (simp add: iteration_events_def Let_def)
qed

lemma update_thread_trace:
  "update_thread os fuel i trace =
     trace @ concat (map (iteration_events os) [i ..< i + fuel])"
proof (induction fuel arbitrary: i trace)
  case 0
  show ?case by simp
next
  case (Suc fuel)
  have "[i ..< i + Suc fuel] = i # [Suc i ..< Suc i + fuel]"
    by (simp add: upt_rec)
  then show ?case
    using Suc.IH [of "Suc i" "trace @ iteration_events os i"]
    by (simp add: update_thread_step del: update_thread.simps)
qed

text \<open>
  Claim C7. The thread does, iteration after iteration and in this order: the
  process capture, the service capture, the performance capture, the dispatch of
  exactly what these three returned, and the sleep of 10 seconds. Its first five
  actions are those of the first iteration, so the first dispatch comes before
  any sleep.
\<close>

theorem update_thread_order:
  "update_thread os n 0 [] = concat (map (iteration_events os) [0 ..< n])
   \<and> iteration_events os i =
       [Get_processes, Get_services, Get_performance_data,
        Idle_add (get_processes (os_process_iter (os i)))
          (case get_services (os_systemctl (os i)) of Inr services \<Rightarrow> services | Inl e \<Rightarrow> [])
          (get_performance_data (os_cpu_percent (os i)) (os_virtual_memory (os i))
             (os_disk_usage (os i)) (os_boot_time (os i))),
        Sleep 10]
   \<and> take 5 (update_thread os (Suc n) 0 []) = iteration_events os 0"
proof -
  have "[0 ..< Suc n] = 0 # [1 ..< Suc n]"
    by (simp add: upt_rec)
  then have "update_thread os (Suc n) 0 [] =
      iteration_events os 0 @ concat (map (iteration_events os) [1 ..< Suc n])"
    using update_thread_trace [of os "Suc n" 0 "[]"] by simp
  moreover have "length (iteration_events os 0) = 5"
    by (simp add: iteration_events_def)
  ultimately have "take 5 (update_thread os (Suc n) 0 []) = iteration_events os 0"
    by simp
  then show ?thesis
    using update_thread_trace [of os n 0 "[]"]
    by (simp add: iteration_events_def update_interval_def)
qed

text \<open>
  On a host where \<^verbatim>\<open>systemctl\<close> is absent at first: the placeholder services are
  dispatched before the first sleep.
\<close>

theorem update_thread_order_witness:
  "take 5 (update_thread example_os 2 0 []) =
     [Get_processes, Get_services, Get_performance_data,
      Idle_add [(''init'', 1, ''sleeping'', ''root'', 0, 0)] fallback_services
        \<lparr> cpu_percent = 55.5, memory_percent = 50, memory_used = 8, memory_total = 16,
          disk_percent = 1.9, disk_used = 1, disk_total = 100,
          boot_time = ''2025-01-01 08:00:00'' \<rparr>,
      Sleep 10]"
  using update_thread_order [of example_os "Suc 0" 0]
  by (simp add: numeral_2_eq_2 example_os_def get_processes_def get_services_def
      get_services_try_def get_performance_data_def del: update_thread.simps)

end
